theory Spec2Isabelle
  imports Complex_Main "HOL-Library.Char_ord" "HOL-Library.List_Lexorder"
begin

section \<open>DataMerger (src/merger/data_merger.py): data model\<close>

text \<open>
  The merger works on pandas objects. The embedding keeps the source's functions and
  their order, and writes out the pandas operations they call as HOL functions on
  explicit tables. The domain of the model:
  \<^item> a cell holds a Python \<open>int\<close>, a \<open>str\<close> (ASCII) or the missing value NaN;
  \<^item> a column has dtype \<open>int64\<close> (every cell an integer) or \<open>object\<close>;
  \<^item> every frame given to \<open>merge\<close> carries the default RangeIndex, so the label of
    a row is its position; column names of a frame are meant to be distinct.
  Exceptions are values: the class of the exception and \<open>str(e)\<close>.
\<close>

datatype pyval = VNaN | VInt int | VStr string

datatype dtype = Int64 | Object

datatype exc_class =
  ValidationError | ValueError | KeyError | TypeError | AttributeError
  | IndexError | ZeroDivisionError | MergeError

type_synonym py_error = "exc_class \<times> string"

text \<open>A \<open>pd.Series\<close> used as a record: its labels with their values, in order.\<close>

type_synonym series = "(string \<times> pyval) list"

text \<open>The dict \<open>field -> (val_a, val_b)\<close> built by \<open>_find_conflicts\<close>, in insertion order.\<close>

type_synonym conflict_fields = "(string \<times> pyval \<times> pyval) list"

text \<open>
  A table is a \<open>pd.DataFrame\<close> whose dtypes are not read any more (everything built
  after match discovery); a frame is a table with one dtype per column.
\<close>

record table =
  columns :: "string list"
  rows :: "pyval list list"

record frame = table +
  dtypes :: "dtype list"

datatype ConflictResolutionStrategy =
  KEEP_NEWEST | KEEP_OLDEST | KEEP_SOURCE_A | KEEP_SOURCE_B
  | KEEP_MOST_COMPLETE | COMBINE | CUSTOM

record MergeConfig =
  key_fields :: "string list"
  conflict_strategy :: ConflictResolutionStrategy
  timestamp_field :: "string option"
  custom_resolver :: "(series \<Rightarrow> series \<Rightarrow> conflict_fields \<Rightarrow> py_error + series) option"
  case_sensitive :: bool
  merge_similar :: bool
  similarity_threshold :: rat
  source_priority :: "string list option"
  field_mappings :: "(string \<times> string) list"
  ignored_fields :: "string list"

text \<open>One entry of \<open>MergeResult.conflicts\<close>.\<close>

record conflict_report =
  key_values :: "(string \<times> pyval) list"
  fields_c :: conflict_fields
  resolution :: series

record MergeResult =
  success :: bool
  merged_data :: "table option"
  conflicts :: "conflict_report list"
  stats :: "(string \<times> int) list"
  errors :: "string list"
  warnings :: "string list"

text \<open>
  What \<open>merge\<close> is called with: a \<open>pd.DataFrame\<close> (or a dict of equal-length columns,
  given as the frame \<open>pd.DataFrame(data)\<close> builds from it), or any other object, given
  by the text of \<open>type(data)\<close>.
\<close>

datatype source = SrcFrame frame | SrcOther string

section \<open>Python and pandas primitives\<close>

definition bind_err :: "'e + 'a \<Rightarrow> ('a \<Rightarrow> 'e + 'b) \<Rightarrow> 'e + 'b" where
  "bind_err m f = (case m of Inl e \<Rightarrow> Inl e | Inr x \<Rightarrow> f x)"

definition py_repr_str :: "string \<Rightarrow> string" where
  "py_repr_str s = [CHR 0x27] @ s @ [CHR 0x27]"

definition key_error :: "string \<Rightarrow> py_error" where
  "key_error k = (KeyError, py_repr_str k)"

definition isna :: "pyval \<Rightarrow> bool" where
  "isna v = (v = VNaN)"

text \<open>\<open>==\<close> and \<open>!=\<close> of Python on cells: NaN is unequal to everything, itself included.\<close>

definition py_eq :: "pyval \<Rightarrow> pyval \<Rightarrow> bool" where
  "py_eq a b = (a \<noteq> VNaN \<and> b \<noteq> VNaN \<and> a = b)"

definition py_ne :: "pyval \<Rightarrow> pyval \<Rightarrow> bool" where
  "py_ne a b = (\<not> py_eq a b)"

text \<open>
  \<open>a > b\<close> of Python: integers by value, strings by code points, any comparison with
  NaN on a number is False, and a string against a number raises TypeError.
\<close>

definition unorderable :: py_error where
  "unorderable = (TypeError, ''ordering not supported between instances of str and a number'')"

fun py_gt :: "pyval \<Rightarrow> pyval \<Rightarrow> py_error + bool" where
  "py_gt (VInt a) (VInt b) = Inr (a > b)"
| "py_gt (VStr a) (VStr b) = Inr (a > b)"
| "py_gt (VStr a) _ = Inl unorderable"
| "py_gt _ (VStr b) = Inl unorderable"
| "py_gt _ _ = Inr False"

definition py_lt :: "pyval \<Rightarrow> pyval \<Rightarrow> py_error + bool" where
  "py_lt a b = py_gt b a"

text \<open>\<open>str(v)\<close>.\<close>

definition digit_char :: "nat \<Rightarrow> char" where
  "digit_char d = char_of (48 + d)"

function str_nat :: "nat \<Rightarrow> string" where
  "str_nat n = (if n < 10 then [digit_char n] else str_nat (n div 10) @ [digit_char (n mod 10)])"
  by pat_completeness auto
termination
  by (relation "measure id") auto

definition py_str :: "pyval \<Rightarrow> string" where
  "py_str v = (case v of
      VStr s \<Rightarrow> s
    | VInt i \<Rightarrow> (if i < 0 then ''-'' @ str_nat (nat (- i)) else str_nat (nat i))
    | VNaN \<Rightarrow> ''nan'')"

text \<open>\<open>str.lower\<close> on ASCII.\<close>

definition lower_char :: "char \<Rightarrow> char" where
  "lower_char c = (let n = (of_char c :: nat) in if 65 \<le> n \<and> n \<le> 90 then char_of (n + 32) else c)"

definition py_lower :: "string \<Rightarrow> string" where
  "py_lower s = map lower_char s"

definition endswith :: "string \<Rightarrow> string \<Rightarrow> bool" where
  "endswith s suf = (length suf \<le> length s \<and> drop (length s - length suf) s = suf)"

subsection \<open>Series and frames\<close>

definition series_get :: "series \<Rightarrow> string \<Rightarrow> py_error + pyval" where
  "series_get s k = (case map_of s k of None \<Rightarrow> Inl (key_error k) | Some v \<Rightarrow> Inr v)"

text \<open>The row at position \<open>i\<close> as a Series over the columns.\<close>

definition row_series :: "'a table_scheme \<Rightarrow> pyval list \<Rightarrow> series" where
  "row_series f r = zip (columns f) r"

definition col_dtype :: "frame \<Rightarrow> string \<Rightarrow> dtype option" where
  "col_dtype f k = map_of (zip (columns f) (dtypes f)) k"

definition col_values :: "'a table_scheme \<Rightarrow> string \<Rightarrow> pyval list" where
  "col_values f k = concat (map (\<lambda>r. map snd (filter (\<lambda>(c, v). c = k) (zip (columns f) r))) (rows f))"

definition map_col :: "(pyval \<Rightarrow> pyval) \<Rightarrow> string \<Rightarrow> frame \<Rightarrow> frame" where
  "map_col g k f =
     f\<lparr>rows := map (\<lambda>r. map (\<lambda>(c, v). if c = k then g v else v) (zip (columns f) r)) (rows f)\<rparr>"

text \<open>
  \<open>df.iloc[v]\<close> with a scalar: pandas refuses a key that is not an integer (a float,
  also NaN, or a string) with TypeError, and an integer out of range with IndexError;
  a negative integer counts from the end.
\<close>

definition iloc :: "'a table_scheme \<Rightarrow> pyval \<Rightarrow> py_error + series" where
  "iloc f v = (case v of
      VInt i \<Rightarrow>
        (let n = int (length (rows f)); j = (if i < 0 then n + i else i)
         in if 0 \<le> j \<and> j < n then Inr (row_series f (rows f ! nat j))
            else Inl (IndexError, ''single positional indexer is out-of-bounds''))
    | _ \<Rightarrow> Inl (TypeError, ''Cannot index by location index with a non-integer key''))"

section \<open>DataMerger: input normalisation, validation, key preparation\<close>

text \<open>\<open>_to_dataframe\<close>: a frame is copied, anything that is neither frame nor dict raises.\<close>

fun to_dataframe :: "source \<Rightarrow> py_error + frame" where
  "to_dataframe (SrcFrame f) = Inr f"
| "to_dataframe (SrcOther ty) = Inl (ValueError, ''Unsupported data type: '' @ ty)"

text \<open>\<open>_apply_field_mappings\<close>: \<open>df.rename(columns=mappings)\<close>; unmapped names stay.\<close>

definition apply_field_mappings :: "frame \<Rightarrow> (string \<times> string) list \<Rightarrow> frame" where
  "apply_field_mappings df mappings =
     df\<lparr>columns := map (\<lambda>c. case map_of mappings c of None \<Rightarrow> c | Some c' \<Rightarrow> c') (columns df)\<rparr>"

text \<open>\<open>_validate_merge_keys\<close>: the loop over \<open>config.key_fields\<close>, source A checked first.\<close>

definition missing_key_msg :: "string \<Rightarrow> string \<Rightarrow> string" where
  "missing_key_msg k side = ''Merge key '' @ py_repr_str k @ '' not found in source '' @ side"

fun validate_keys :: "frame \<Rightarrow> frame \<Rightarrow> string list \<Rightarrow> py_error + unit" where
  "validate_keys df_a df_b [] = Inr ()"
| "validate_keys df_a df_b (k # ks) =
     (if k \<notin> set (columns df_a) then Inl (ValidationError, missing_key_msg k ''A'')
      else if k \<notin> set (columns df_b) then Inl (ValidationError, missing_key_msg k ''B'')
      else validate_keys df_a df_b ks)"

definition validate_merge_keys :: "frame \<Rightarrow> frame \<Rightarrow> MergeConfig \<Rightarrow> py_error + unit" where
  "validate_merge_keys df_a df_b config = validate_keys df_a df_b (key_fields config)"

text \<open>
  \<open>df[key].str.lower()\<close> on an object column. The \<open>.str\<close> accessor raises AttributeError
  when the non-missing cells are all integers; otherwise strings are lower-cased and
  every other cell becomes NaN.
\<close>

definition str_accessor_ok :: "pyval list \<Rightarrow> bool" where
  "str_accessor_ok vs =
     (let present = filter (\<lambda>v. v \<noteq> VNaN) vs
      in present = [] \<or> list_ex (\<lambda>v. case v of VStr s \<Rightarrow> True | _ \<Rightarrow> False) present)"

definition lower_val :: "pyval \<Rightarrow> pyval" where
  "lower_val v = (case v of VStr s \<Rightarrow> VStr (py_lower s) | _ \<Rightarrow> VNaN)"

definition str_lower_key :: "frame \<Rightarrow> string \<Rightarrow> py_error + frame" where
  "str_lower_key df k = (case col_dtype df k of
      None \<Rightarrow> Inl (key_error k)
    | Some Int64 \<Rightarrow> Inr df
    | Some Object \<Rightarrow>
        (if str_accessor_ok (col_values df k) then Inr (map_col lower_val k df)
         else Inl (AttributeError, ''Can only use .str accessor with string values!'')))"

fun lower_keys :: "string list \<Rightarrow> frame \<Rightarrow> frame \<Rightarrow> py_error + frame \<times> frame" where
  "lower_keys [] df_a df_b = Inr (df_a, df_b)"
| "lower_keys (k # ks) df_a df_b =
     bind_err (str_lower_key df_a k) (\<lambda>a'.
     bind_err (str_lower_key df_b k) (\<lambda>b'.
     lower_keys ks a' b'))"

definition prepare_merge_keys :: "frame \<Rightarrow> frame \<Rightarrow> MergeConfig \<Rightarrow> py_error + frame \<times> frame" where
  "prepare_merge_keys df_a df_b config =
     (if \<not> case_sensitive config then lower_keys (key_fields config) df_a df_b
      else Inr (df_a, df_b))"

section \<open>Match discovery\<close>

text \<open>
  What \<open>_find_matches\<close> returns. With \<open>merge_similar\<close> it is \<open>pd.DataFrame(matches)\<close> for
  the list of dicts \<open>{idx_a, idx_b, similarity}\<close>: no column at all when the list is empty,
  else two int64 columns and one float64 column. Otherwise it is the frame \<open>pd.merge\<close> built.
\<close>

datatype matches = Similar "(nat \<times> nat \<times> rat) list" | Joined table

subsection \<open>Fuzzy mode: \<open>_find_similar_matches\<close>\<close>

text \<open>
  \<open>rapidfuzz.fuzz.ratio\<close> is the normalised Indel similarity in percent:
  \<open>100 * (1 - (len1 + len2 - 2 * lcs) / (len1 + len2))\<close>, and 100 for two empty strings.
  Scores are exact rationals here; the rounding of Python floats is not modelled.
\<close>

fun lcs :: "'a list \<Rightarrow> 'a list \<Rightarrow> nat" where
  "lcs [] ys = 0"
| "lcs (x # xs) [] = 0"
| "lcs (x # xs) (y # ys) =
     (if x = y then Suc (lcs xs ys) else max (lcs (x # xs) ys) (lcs xs (y # ys)))"

definition fuzz_ratio :: "string \<Rightarrow> string \<Rightarrow> rat" where
  "fuzz_ratio s1 s2 =
     (if s1 = [] \<and> s2 = [] then 100
      else 100 * of_nat (2 * lcs s1 s2) / of_nat (length s1 + length s2))"

text \<open>
  The body of \<open>for key in config.key_fields\<close>: \<open>is_string_dtype\<close> holds of the object dtype
  and not of int64, and it is asked of the column of source A only.
\<close>

definition key_score :: "frame \<Rightarrow> series \<Rightarrow> series \<Rightarrow> string \<Rightarrow> py_error + rat" where
  "key_score df_a row_a row_b key = (case col_dtype df_a key of
      None \<Rightarrow> Inl (key_error key)
    | Some Object \<Rightarrow>
        bind_err (series_get row_a key) (\<lambda>va.
        bind_err (series_get row_b key) (\<lambda>vb.
        Inr (fuzz_ratio (py_str va) (py_str vb) / 100)))
    | Some Int64 \<Rightarrow>
        bind_err (series_get row_a key) (\<lambda>va.
        bind_err (series_get row_b key) (\<lambda>vb.
        Inr (if py_eq va vb then 1 else 0))))"

fun key_scores :: "frame \<Rightarrow> series \<Rightarrow> series \<Rightarrow> string list \<Rightarrow> py_error + rat list" where
  "key_scores df_a row_a row_b [] = Inr []"
| "key_scores df_a row_a row_b (k # ks) =
     bind_err (key_score df_a row_a row_b k) (\<lambda>s.
     bind_err (key_scores df_a row_a row_b ks) (\<lambda>ss.
     Inr (s # ss)))"

text \<open>\<open>sum(scores) / len(scores)\<close>: division by zero when there is no key field.\<close>

definition avg_score :: "frame \<Rightarrow> series \<Rightarrow> series \<Rightarrow> string list \<Rightarrow> py_error + rat" where
  "avg_score df_a row_a row_b keys =
     bind_err (key_scores df_a row_a row_b keys) (\<lambda>scores.
     if scores = [] then Inl (ZeroDivisionError, ''division by zero'')
     else Inr (sum_list scores / of_nat (length scores)))"

text \<open>The inner loop over the rows of B from position \<open>j\<close> on, for the row of A at \<open>i\<close>.\<close>

fun scan_b ::
  "frame \<Rightarrow> frame \<Rightarrow> MergeConfig \<Rightarrow> nat \<Rightarrow> pyval list \<Rightarrow> nat \<Rightarrow> pyval list list
   \<Rightarrow> py_error + (nat \<times> nat \<times> rat) list" where
  "scan_b df_a df_b config i ra j [] = Inr []"
| "scan_b df_a df_b config i ra j (rb # rbs) =
     bind_err (avg_score df_a (row_series df_a ra) (row_series df_b rb) (key_fields config)) (\<lambda>avg.
     bind_err (scan_b df_a df_b config i ra (Suc j) rbs) (\<lambda>ms.
     Inr (if avg \<ge> similarity_threshold config then (i, j, avg) # ms else ms)))"

text \<open>The outer loop over the rows of A from position \<open>i\<close> on.\<close>

fun scan_a ::
  "frame \<Rightarrow> frame \<Rightarrow> MergeConfig \<Rightarrow> nat \<Rightarrow> pyval list list
   \<Rightarrow> py_error + (nat \<times> nat \<times> rat) list" where
  "scan_a df_a df_b config i [] = Inr []"
| "scan_a df_a df_b config i (ra # ras) =
     bind_err (scan_b df_a df_b config i ra 0 (rows df_b)) (\<lambda>ms.
     bind_err (scan_a df_a df_b config (Suc i) ras) (\<lambda>ms'.
     Inr (ms @ ms')))"

definition find_similar_matches ::
  "frame \<Rightarrow> frame \<Rightarrow> MergeConfig \<Rightarrow> py_error + (nat \<times> nat \<times> rat) list" where
  "find_similar_matches df_a df_b config = scan_a df_a df_b config 0 (rows df_a)"

subsection \<open>Exact mode: \<open>pd.merge(df_a, df_b, on=key_fields, how='inner', suffixes=('_a', '_b'), indicator=True)\<close>\<close>

text \<open>
  The steps of \<open>pd.merge\<close> (pandas 2.1), in its order:
  \<^enum> each key is looked up in both frames (KeyError);
  \<^enum> a key that is an object column on one side and int64 on the other is refused
    (ValueError) when the object column holds strings and no integer;
  \<^enum> with \<open>indicator=True\<close> the names \<open>_left_indicator\<close>, \<open>_right_indicator\<close> and \<open>_merge\<close>
    must be free (ValueError);
  \<^enum> an empty key list fails on \<open>left_keys[0]\<close> (IndexError);
  \<^enum> a non-key column named on both sides gets the suffixes; a suffixed name that
    repeats a name of its own side is refused (MergeError);
  \<^enum> the result has the columns of A, the non-key columns of B and \<open>_merge\<close>, one row
    for each pair of rows with the same key cells (missing keys match each other), in
    the order of the rows of A and then of B.
\<close>

definition has_str :: "pyval list \<Rightarrow> bool" where
  "has_str vs = list_ex (\<lambda>v. case v of VStr s \<Rightarrow> True | _ \<Rightarrow> False) vs"

definition has_int :: "pyval list \<Rightarrow> bool" where
  "has_int vs = list_ex (\<lambda>v. case v of VInt i \<Rightarrow> True | _ \<Rightarrow> False) vs"

definition dtype_name :: "dtype \<Rightarrow> string" where
  "dtype_name d = (case d of Int64 \<Rightarrow> ''int64'' | Object \<Rightarrow> ''object'')"

definition coerce_msg :: "dtype \<Rightarrow> dtype \<Rightarrow> string \<Rightarrow> string" where
  "coerce_msg dl dr k =
     ''You are trying to merge on '' @ dtype_name dl @ '' and '' @ dtype_name dr
     @ '' columns for key '' @ py_repr_str k
     @ ''. If you wish to proceed you should use pd.concat''"

fun lookup_merge_keys :: "frame \<Rightarrow> frame \<Rightarrow> string list \<Rightarrow> py_error + unit" where
  "lookup_merge_keys l r [] = Inr ()"
| "lookup_merge_keys l r (k # ks) =
     (if k \<notin> set (columns r) \<or> k \<notin> set (columns l) then Inl (key_error k)
      else lookup_merge_keys l r ks)"

fun coerce_merge_keys :: "frame \<Rightarrow> frame \<Rightarrow> string list \<Rightarrow> py_error + unit" where
  "coerce_merge_keys l r [] = Inr ()"
| "coerce_merge_keys l r (k # ks) =
     (case (col_dtype l k, col_dtype r k) of
        (Some Object, Some Int64) \<Rightarrow>
          (if has_str (col_values l k) \<and> \<not> has_int (col_values l k)
           then Inl (ValueError, coerce_msg Object Int64 k) else coerce_merge_keys l r ks)
      | (Some Int64, Some Object) \<Rightarrow>
          (if has_str (col_values r k) \<and> \<not> has_int (col_values r k)
           then Inl (ValueError, coerce_msg Int64 Object k) else coerce_merge_keys l r ks)
      | _ \<Rightarrow> coerce_merge_keys l r ks)"

definition indicator_pre_merge :: "frame \<Rightarrow> frame \<Rightarrow> py_error + unit" where
  "indicator_pre_merge l r =
     (let cs = set (columns l) \<union> set (columns r) in
      if ''_left_indicator'' \<in> cs then
        Inl (ValueError, ''Cannot use `indicator=True` option when data contains a column named _left_indicator'')
      else if ''_right_indicator'' \<in> cs then
        Inl (ValueError, ''Cannot use `indicator=True` option when data contains a column named _right_indicator'')
      else if ''_merge'' \<in> cs then
        Inl (ValueError, ''Cannot use name of an existing column for indicator column'')
      else Inr ())"

text \<open>\<open>Index.duplicated()\<close>: marks every occurrence of a label after its first.\<close>

fun duplicated :: "'a list \<Rightarrow> 'a list \<Rightarrow> bool list" where
  "duplicated seen [] = []"
| "duplicated seen (x # xs) = (x \<in> set seen) # duplicated (x # seen) xs"

definition suffix_dups :: "string list \<Rightarrow> string list \<Rightarrow> bool" where
  "suffix_dups new old =
     list_ex (\<lambda>(dn, dold). dn \<and> \<not> dold) (zip (duplicated [] new) (duplicated [] old))"

definition key_cells :: "string list \<Rightarrow> string list \<Rightarrow> pyval list \<Rightarrow> pyval option list" where
  "key_cells keys cols r = map (map_of (zip cols r)) keys"

definition non_key_cells :: "string list \<Rightarrow> string list \<Rightarrow> pyval list \<Rightarrow> pyval list" where
  "non_key_cells keys cols r = map snd (filter (\<lambda>(c, v). c \<notin> set keys) (zip cols r))"

definition join_rows :: "string list \<Rightarrow> frame \<Rightarrow> frame \<Rightarrow> pyval list list" where
  "join_rows keys l r =
     concat (map (\<lambda>ra.
       map (\<lambda>rb. ra @ non_key_cells keys (columns r) rb @ [VStr ''both''])
         (filter (\<lambda>rb. key_cells keys (columns r) rb = key_cells keys (columns l) ra) (rows r)))
       (rows l))"

definition pd_merge :: "frame \<Rightarrow> frame \<Rightarrow> string list \<Rightarrow> py_error + table" where
  "pd_merge l r keys =
     bind_err (lookup_merge_keys l r keys) (\<lambda>_.
     bind_err (coerce_merge_keys l r keys) (\<lambda>_.
     bind_err (indicator_pre_merge l r) (\<lambda>_.
     if keys = [] then Inl (IndexError, ''list index out of range'')
     else
       (let rcols = filter (\<lambda>c. c \<notin> set keys) (columns r);
            to_rename = set (columns l) \<inter> set rcols;
            llabels = map (\<lambda>c. if c \<in> to_rename then c @ ''_a'' else c) (columns l);
            rlabels = map (\<lambda>c. if c \<in> to_rename then c @ ''_b'' else c) rcols
        in if suffix_dups llabels (columns l) \<or> suffix_dups rlabels rcols then
             Inl (MergeError, ''Passing suffixes which cause duplicate columns is not allowed.'')
           else Inr \<lparr>columns = llabels @ rlabels @ [''_merge''], rows = join_rows keys l r\<rparr>))))"

text \<open>\<open>_find_matches\<close>.\<close>

definition find_matches :: "frame \<Rightarrow> frame \<Rightarrow> MergeConfig \<Rightarrow> py_error + matches" where
  "find_matches df_a df_b config =
     (if merge_similar config then
        bind_err (find_similar_matches df_a df_b config) (\<lambda>ms. Inr (Similar ms))
      else
        bind_err (pd_merge df_a df_b (key_fields config)) (\<lambda>t. Inr (Joined t)))"

section \<open>Conflict detection and resolution\<close>

text \<open>\<open>_find_conflicts\<close>: the loop over the labels of \<open>record_a\<close>.\<close>

definition find_conflicts :: "series \<Rightarrow> series \<Rightarrow> conflict_fields" where
  "find_conflicts record_a record_b =
     concat (map (\<lambda>(field, val_a).
       (case map_of record_b field of
          None \<Rightarrow> []
        | Some val_b \<Rightarrow>
            (if \<not> isna val_a \<and> \<not> isna val_b \<and> py_ne val_a val_b
             then [(field, val_a, val_b)] else []))) record_a)"

text \<open>
  \<open>resolved.update(record_b)\<close>: aligned on the labels of \<open>resolved\<close>; a label takes the
  value of \<open>record_b\<close> where that one is present and not missing. Labels that only
  \<open>record_b\<close> has are not added.
\<close>

definition series_update :: "series \<Rightarrow> series \<Rightarrow> series" where
  "series_update resolved other =
     map (\<lambda>(l, v). case map_of other l of
                      None \<Rightarrow> (l, v)
                    | Some w \<Rightarrow> (if isna w then (l, v) else (l, w))) resolved"

text \<open>\<open>resolved[field] = v\<close>: overwrites the label, or appends it when it is new.\<close>

definition series_set :: "series \<Rightarrow> string \<Rightarrow> pyval \<Rightarrow> series" where
  "series_set s field v =
     (if field \<in> set (map fst s) then map (\<lambda>(l, w). if l = field then (l, v) else (l, w)) s
      else s @ [(field, v)])"

text \<open>\<open>record.isna().sum()\<close>.\<close>

definition null_count :: "series \<Rightarrow> nat" where
  "null_count s = length (filter (\<lambda>(l, v). isna v) s)"

text \<open>
  The body of the COMBINE loop for one conflicting field. No cell of the model is a
  list or a set, so the first \<open>isinstance\<close> test is false; two strings are joined.
\<close>

definition combine_field :: "series \<Rightarrow> string \<times> pyval \<times> pyval \<Rightarrow> series" where
  "combine_field resolved c = (case c of
      (field, VStr a, VStr b) \<Rightarrow> series_set resolved field (VStr (a @ '' | '' @ b))
    | _ \<Rightarrow> resolved)"

text \<open>\<open>if config.timestamp_field:\<close> is false for \<open>None\<close> and for the empty string.\<close>

definition truthy :: "string option \<Rightarrow> bool" where
  "truthy t = (case t of None \<Rightarrow> False | Some s \<Rightarrow> s \<noteq> [])"

text \<open>\<open>_apply_resolution_strategy\<close>.\<close>

definition apply_resolution_strategy ::
  "series \<Rightarrow> series \<Rightarrow> conflict_fields \<Rightarrow> MergeConfig \<Rightarrow> py_error + series" where
  "apply_resolution_strategy record_a record_b cs config =
     (case conflict_strategy config of
        KEEP_NEWEST \<Rightarrow>
          (if truthy (timestamp_field config) then
             bind_err (series_get record_b (the (timestamp_field config))) (\<lambda>tb.
             bind_err (series_get record_a (the (timestamp_field config))) (\<lambda>ta.
             bind_err (py_gt tb ta) (\<lambda>newer.
             Inr (if newer then series_update record_a record_b else record_a))))
           else Inr record_a)
      | KEEP_OLDEST \<Rightarrow>
          (if truthy (timestamp_field config) then
             bind_err (series_get record_b (the (timestamp_field config))) (\<lambda>tb.
             bind_err (series_get record_a (the (timestamp_field config))) (\<lambda>ta.
             bind_err (py_lt tb ta) (\<lambda>older.
             Inr (if older then series_update record_a record_b else record_a))))
           else Inr record_a)
      | KEEP_SOURCE_A \<Rightarrow> Inr record_a
      | KEEP_SOURCE_B \<Rightarrow> Inr (series_update record_a record_b)
      | KEEP_MOST_COMPLETE \<Rightarrow>
          Inr (if null_count record_b < null_count record_a
               then series_update record_a record_b else record_a)
      | COMBINE \<Rightarrow> Inr (foldl combine_field record_a cs)
      | CUSTOM \<Rightarrow>
          (case custom_resolver config of
             None \<Rightarrow> Inr record_a
           | Some resolver \<Rightarrow> resolver record_a record_b cs))"

text \<open>
  \<open>record_a.combine_first(record_b)\<close>: the labels are the union of both (kept as they
  are when \<open>record_b\<close> has none or the same ones, else sorted); a label takes the value of
  \<open>record_a\<close> unless that is missing, then the value of \<open>record_b\<close>, then NaN.
\<close>

definition combine_first :: "series \<Rightarrow> series \<Rightarrow> series" where
  "combine_first a b =
     (let la = map fst a; lb = map fst b;
          new_index = (if lb = [] \<or> la = lb then la
                       else if la = [] then lb
                       else sort (remdups (la @ lb)))
      in map (\<lambda>l. (l, case map_of a l of
                        Some v \<Rightarrow> (if isna v then (case map_of b l of Some w \<Rightarrow> w | None \<Rightarrow> VNaN) else v)
                      | None \<Rightarrow> (case map_of b l of Some w \<Rightarrow> w | None \<Rightarrow> VNaN))) new_index)"

text \<open>
  \<open>match['idx_a']\<close> on a row of the joined frame: KeyError when no column has the
  label. When several columns have it pandas hands back a sub-Series, which the
  following \<open>iloc\<close> and \<open>combine_first\<close> do not take as a row; the call ends in an
  exception, given here as one ValueError.
\<close>

definition match_get :: "series \<Rightarrow> string \<Rightarrow> py_error + pyval" where
  "match_get m k = (case filter (\<lambda>(l, v). l = k) m of
      [] \<Rightarrow> Inl (key_error k)
    | [(l, v)] \<Rightarrow> Inr v
    | _ \<Rightarrow> Inl (ValueError, ''Must specify axis=0 or 1''))"

fun key_values_of :: "series \<Rightarrow> string list \<Rightarrow> py_error + (string \<times> pyval) list" where
  "key_values_of record_a [] = Inr []"
| "key_values_of record_a (k # ks) =
     bind_err (series_get record_a k) (\<lambda>v.
     bind_err (key_values_of record_a ks) (\<lambda>kvs.
     Inr ((k, v) # kvs)))"

text \<open>
  The body of the loop of \<open>_resolve_conflicts\<close> once the two records are fetched: the
  report to append (if any) and the resolved record.
\<close>

definition resolve_pair ::
  "series \<Rightarrow> series \<Rightarrow> MergeConfig \<Rightarrow> py_error + conflict_report list \<times> series" where
  "resolve_pair record_a record_b config =
     (let cs = find_conflicts record_a record_b in
      if cs \<noteq> [] then
        bind_err (apply_resolution_strategy record_a record_b cs config) (\<lambda>resolved.
        bind_err (key_values_of record_a (key_fields config)) (\<lambda>kvs.
        Inr ([\<lparr>key_values = kvs, fields_c = cs, resolution = resolved\<rparr>], resolved)))
      else Inr ([], combine_first record_a record_b))"

text \<open>The whole body of the loop for one row \<open>m\<close> of the joined frame.\<close>

definition resolve_match ::
  "frame \<Rightarrow> frame \<Rightarrow> MergeConfig \<Rightarrow> series \<Rightarrow> py_error + conflict_report list \<times> series" where
  "resolve_match df_a df_b config m =
     bind_err (match_get m ''idx_a'') (\<lambda>ia.
     bind_err (iloc df_a ia) (\<lambda>record_a.
     bind_err (match_get m ''idx_b'') (\<lambda>ib.
     bind_err (iloc df_b ib) (\<lambda>record_b.
     resolve_pair record_a record_b config))))"

text \<open>
  The loop, threading \<open>result.conflicts\<close> and \<open>resolved_data\<close>. The reports appended
  before an exception stay in \<open>result\<close>.
\<close>

fun resolve_loop ::
  "frame \<Rightarrow> frame \<Rightarrow> MergeConfig \<Rightarrow> series list \<Rightarrow> conflict_report list \<Rightarrow> series list
   \<Rightarrow> conflict_report list \<times> (py_error + series list)" where
  "resolve_loop df_a df_b config [] reports resolved_data = (reports, Inr resolved_data)"
| "resolve_loop df_a df_b config (m # ms) reports resolved_data =
     (case resolve_match df_a df_b config m of
        Inl e \<Rightarrow> (reports, Inl e)
      | Inr (rep, resolved) \<Rightarrow>
          resolve_loop df_a df_b config ms (reports @ rep) (resolved_data @ [resolved]))"

text \<open>\<open>pd.DataFrame(resolved_data)\<close>: the columns are the labels in order of first appearance.\<close>

definition first_seen :: "'a list \<Rightarrow> 'a list" where
  "first_seen xs = rev (remdups (rev xs))"

definition reindex_row :: "string list \<Rightarrow> series \<Rightarrow> pyval list" where
  "reindex_row cols s = map (\<lambda>c. case map_of s c of None \<Rightarrow> VNaN | Some v \<Rightarrow> v) cols"

definition frame_of_series :: "series list \<Rightarrow> table" where
  "frame_of_series ss =
     (let cols = first_seen (concat (map (map fst) ss))
      in \<lparr>columns = cols, rows = map (reindex_row cols) ss\<rparr>)"

text \<open>
  \<open>_resolve_conflicts\<close>. The rows of the frame of similar matches come out of
  \<open>iterrows()\<close> as float64 Series (two int64 columns and one float64 column have the
  common dtype float64), so \<open>match['idx_a']\<close> is a float and \<open>df_a.iloc\<close> refuses it.
\<close>

definition resolve_conflicts ::
  "frame \<Rightarrow> frame \<Rightarrow> matches \<Rightarrow> MergeConfig \<Rightarrow> conflict_report list \<times> (py_error + table)" where
  "resolve_conflicts df_a df_b ms config = (case ms of
      Similar [] \<Rightarrow> ([], Inr (frame_of_series []))
    | Similar (m # rest) \<Rightarrow>
        ([], Inl (TypeError, ''Cannot index by location index with a non-integer key''))
    | Joined t \<Rightarrow>
        (case resolve_loop df_a df_b config (map (row_series t) (rows t)) [] [] of
           (reports, Inl e) \<Rightarrow> (reports, Inl e)
         | (reports, Inr resolved_data) \<Rightarrow> (reports, Inr (frame_of_series resolved_data))))"

section \<open>Unmatched records, cleanup, and \<open>merge\<close>\<close>

text \<open>
  \<open>set(matches[col])\<close>: KeyError when the frame has no such column (so for the frame
  of an empty match list, which has no column); the cells of the column; and, when
  several columns have the label, the labels of the sub-frame, that is \<open>col\<close> itself.
\<close>

definition matched_idx :: "matches \<Rightarrow> string \<Rightarrow> py_error + pyval list" where
  "matched_idx ms col = (case ms of
      Similar [] \<Rightarrow> Inl (key_error col)
    | Similar (m # rest) \<Rightarrow>
        (if col = ''idx_a'' then Inr (map (\<lambda>(i, j, s). VInt (int i)) (m # rest))
         else if col = ''idx_b'' then Inr (map (\<lambda>(i, j, s). VInt (int j)) (m # rest))
         else Inl (key_error col))
    | Joined t \<Rightarrow>
        (case filter (\<lambda>c. c = col) (columns t) of
           [] \<Rightarrow> Inl (key_error col)
         | [c] \<Rightarrow> Inr (col_values t col)
         | _ \<Rightarrow> Inr [VStr col]))"

text \<open>\<open>df[~df.index.isin(matched)]\<close>: the rows whose position is not among the cells.\<close>

definition unmatched_rows :: "frame \<Rightarrow> pyval list \<Rightarrow> pyval list list" where
  "unmatched_rows df matched =
     map snd (filter (\<lambda>(i, r). VInt (int i) \<notin> set matched) (zip [0..<length (rows df)] (rows df)))"

text \<open>\<open>pd.concat\<close>: the columns in order of first appearance, NaN where a frame lacks one.\<close>

definition pd_concat :: "table list \<Rightarrow> table" where
  "pd_concat ts =
     (let cols = first_seen (concat (map columns ts))
      in \<lparr>columns = cols,
          rows = concat (map (\<lambda>t. map (\<lambda>r. reindex_row cols (row_series t r)) (rows t)) ts)\<rparr>)"

text \<open>\<open>_handle_unmatched\<close>.\<close>

definition handle_unmatched ::
  "table \<Rightarrow> frame \<Rightarrow> frame \<Rightarrow> matches \<Rightarrow> MergeConfig \<Rightarrow> py_error + table" where
  "handle_unmatched matched_data df_a df_b ms config =
     bind_err (matched_idx ms ''idx_a'') (\<lambda>matched_idx_a.
     bind_err (matched_idx ms ''idx_b'') (\<lambda>matched_idx_b.
     (let unmatched_a = \<lparr>columns = columns df_a, rows = unmatched_rows df_a matched_idx_a\<rparr>;
          unmatched_b = \<lparr>columns = columns df_b, rows = unmatched_rows df_b matched_idx_b\<rparr>
      in Inr (pd_concat [matched_data, unmatched_a, unmatched_b]))))"

text \<open>\<open>df.drop(columns=names)\<close>: every column with one of the labels goes.\<close>

definition drop_columns :: "table \<Rightarrow> string list \<Rightarrow> table" where
  "drop_columns df names =
     \<lparr>columns = filter (\<lambda>c. c \<notin> set names) (columns df),
      rows = map (\<lambda>r. map snd (filter (\<lambda>(c, v). c \<notin> set names) (zip (columns df) r))) (rows df)\<rparr>"

definition is_suffix_col :: "string \<Rightarrow> bool" where
  "is_suffix_col col = (endswith col ''_a'' \<or> endswith col ''_b'')"

text \<open>\<open>_cleanup_merged_data\<close>; \<open>reset_index\<close> leaves columns and rows as they are.\<close>

definition cleanup_merged_data :: "table \<Rightarrow> string list \<Rightarrow> table" where
  "cleanup_merged_data df ignored =
     (let df1 = foldl (\<lambda>d field. if field \<in> set (columns d) then drop_columns d [field] else d)
                  df ignored;
          suffix_cols = filter is_suffix_col (columns df1)
      in drop_columns df1 suffix_cols)"

definition match_count :: "matches \<Rightarrow> nat" where
  "match_count ms = (case ms of Similar l \<Rightarrow> length l | Joined t \<Rightarrow> length (rows t))"

text \<open>
  The \<open>try\<close> block of \<open>merge\<close> up to the statistics: the reports appended to
  \<open>result.conflicts\<close>, and the exception or the final data with \<open>result.stats\<close>.
\<close>

definition merge_body ::
  "source \<Rightarrow> source \<Rightarrow> MergeConfig
   \<Rightarrow> conflict_report list \<times> (py_error + table \<times> (string \<times> int) list)" where
  "merge_body source_a source_b merge_config =
     (case
        bind_err (to_dataframe source_a) (\<lambda>a0.
        bind_err (to_dataframe source_b) (\<lambda>b0.
        (let a1 = apply_field_mappings a0 (field_mappings merge_config);
             b1 = apply_field_mappings b0 (field_mappings merge_config)
         in bind_err (validate_merge_keys a1 b1 merge_config) (\<lambda>_.
            bind_err (prepare_merge_keys a1 b1 merge_config) (\<lambda>(df_a, df_b).
            bind_err (find_matches df_a df_b merge_config) (\<lambda>ms.
            Inr (df_a, df_b, ms)))))))
      of
        Inl e \<Rightarrow> ([], Inl e)
      | Inr (df_a, df_b, ms) \<Rightarrow>
          (case resolve_conflicts df_a df_b ms merge_config of
             (reports, Inl e) \<Rightarrow> (reports, Inl e)
           | (reports, Inr resolved_data) \<Rightarrow>
               (reports,
                bind_err (handle_unmatched resolved_data df_a df_b ms merge_config) (\<lambda>all_data.
                (let final_data = cleanup_merged_data all_data (ignored_fields merge_config)
                 in Inr (final_data,
                      [(''total_records'', int (length (rows final_data))),
                       (''matches_found'', int (match_count ms)),
                       (''conflicts_resolved'', int (length reports)),
                       (''source_a_only'', int (length (rows df_a)) - int (match_count ms)),
                       (''source_b_only'', int (length (rows df_b)) - int (match_count ms))]))))))"

text \<open>\<open>merge\<close>: the \<open>except Exception\<close> clause turns an exception into a failed result.\<close>

definition merge :: "source \<Rightarrow> source \<Rightarrow> MergeConfig \<Rightarrow> MergeResult" where
  "merge source_a source_b merge_config =
     (case merge_body source_a source_b merge_config of
        (reports, Inl e) \<Rightarrow>
          \<lparr>success = False, merged_data = None, conflicts = reports, stats = [],
           errors = [snd e], warnings = []\<rparr>
      | (reports, Inr (final_data, st)) \<Rightarrow>
          \<lparr>success = True, merged_data = Some final_data, conflicts = reports, stats = st,
           errors = [], warnings = []\<rparr>)"

section \<open>Concrete inputs\<close>

text \<open>\<open>MergeConfig(key_fields=keys)\<close> with the defaults of the dataclass.\<close>

definition default_config :: "string list \<Rightarrow> MergeConfig" where
  "default_config keys =
     \<lparr>key_fields = keys, conflict_strategy = KEEP_NEWEST, timestamp_field = None,
      custom_resolver = None, case_sensitive = False, merge_similar = True,
      similarity_threshold = 9 / 10, source_priority = None, field_mappings = [],
      ignored_fields = []\<rparr>"

text \<open>\<open>MergeConfig(key_fields=keys, merge_similar=False)\<close>.\<close>

definition exact_config :: "string list \<Rightarrow> MergeConfig" where
  "exact_config keys = (default_config keys)\<lparr>merge_similar := False\<rparr>"

text \<open>\<open>{'id': [1]}\<close>, \<open>{'name': ['x']}\<close> and \<open>{'id': []}\<close>.\<close>

definition frame_id :: frame where
  "frame_id = \<lparr>columns = [''id''], rows = [[VInt 1]], dtypes = [Int64]\<rparr>"

definition frame_name :: frame where
  "frame_name = \<lparr>columns = [''name''], rows = [[VStr ''x'']], dtypes = [Object]\<rparr>"

definition frame_id_empty :: frame where
  "frame_id_empty = \<lparr>columns = [''id''], rows = [], dtypes = [Object]\<rparr>"

text \<open>
  Sources whose own data have columns named \<open>idx_a\<close> and \<open>idx_b\<close>:
  \<open>{'id': [1], 'idx_a': [0]}\<close>, \<open>{'id': [1], 'idx_b': [0]}\<close> and \<open>{'id': [1, 1], 'idx_a': [0, 0]}\<close>.
\<close>

definition frame_a_idx :: frame where
  "frame_a_idx =
     \<lparr>columns = [''id'', ''idx_a''], rows = [[VInt 1, VInt 0]], dtypes = [Int64, Int64]\<rparr>"

definition frame_b_idx :: frame where
  "frame_b_idx =
     \<lparr>columns = [''id'', ''idx_b''], rows = [[VInt 1, VInt 0]], dtypes = [Int64, Int64]\<rparr>"

definition frame_a_twice :: frame where
  "frame_a_twice =
     \<lparr>columns = [''id'', ''idx_a''], rows = [[VInt 1, VInt 0], [VInt 1, VInt 0]],
      dtypes = [Int64, Int64]\<rparr>"

text \<open>
  Sources with a conflicting field \<open>val\<close> beside their columns \<open>idx_a\<close> and \<open>idx_b\<close>:
  \<open>{'id': [1], 'idx_a': [0], 'val': ['x']}\<close> and \<open>{'id': [1], 'idx_b': [0], 'val': ['y']}\<close>.
\<close>

definition frame_a_val :: frame where
  "frame_a_val =
     \<lparr>columns = [''id'', ''idx_a'', ''val''], rows = [[VInt 1, VInt 0, VStr ''x'']],
      dtypes = [Int64, Int64, Object]\<rparr>"

definition frame_b_val :: frame where
  "frame_b_val =
     \<lparr>columns = [''id'', ''idx_b'', ''val''], rows = [[VInt 1, VInt 0, VStr ''y'']],
      dtypes = [Int64, Int64, Object]\<rparr>"

text \<open>\<open>MergeConfig(key_fields=['id'], merge_similar=False, conflict_strategy=CUSTOM)\<close>.\<close>

definition custom_config :: MergeConfig where
  "custom_config = (exact_config [''id''])\<lparr>conflict_strategy := CUSTOM\<rparr>"

text \<open>
  The two matched records of the strategy examples, \<open>{id: 1, val: "x", ts: 10}\<close> and
  \<open>{id: 1, val: "y", ts: 20}\<close>, and the configuration with a strategy and
  \<open>timestamp_field='ts'\<close>.
\<close>

definition record_x :: series where
  "record_x = [(''id'', VInt 1), (''val'', VStr ''x''), (''ts'', VInt 10)]"

definition record_y :: series where
  "record_y = [(''id'', VInt 1), (''val'', VStr ''y''), (''ts'', VInt 20)]"

definition strategy_config :: "ConflictResolutionStrategy \<Rightarrow> MergeConfig" where
  "strategy_config s =
     (exact_config [''id''])\<lparr>conflict_strategy := s, timestamp_field := Some ''ts''\<rparr>"

text \<open>The value of \<open>val\<close> in the record a strategy resolves the two records to.\<close>

definition resolved_val :: "conflict_fields \<Rightarrow> ConflictResolutionStrategy \<Rightarrow> py_error + pyval" where
  "resolved_val cs s =
     bind_err (apply_resolution_strategy record_x record_y cs (strategy_config s))
       (\<lambda>resolved. series_get resolved ''val'')"

text \<open>
  Fuzzy matching: \<open>{'k': ['a', 'a']}\<close> against \<open>{'k': ['a']}\<close>. The pair of positions of a
  reported match, and what "each record takes part in at most one match" says of a
  list of matches.
\<close>

definition frame_k_twice :: frame where
  "frame_k_twice = \<lparr>columns = [''k''], rows = [[VStr ''a''], [VStr ''a'']], dtypes = [Object]\<rparr>"

definition frame_k_once :: frame where
  "frame_k_once = \<lparr>columns = [''k''], rows = [[VStr ''a'']], dtypes = [Object]\<rparr>"

definition match_pair :: "nat \<times> nat \<times> rat \<Rightarrow> nat \<times> nat" where
  "match_pair m = (fst m, fst (snd m))"

definition one_match_per_record :: "(nat \<times> nat) list \<Rightarrow> bool" where
  "one_match_per_record pairs = (distinct (map fst pairs) \<and> distinct (map snd pairs))"

text \<open>
  The pairs of positions (row of A, row of B) that the inner join puts together, in its
  order, and the joined row of one pair.
\<close>

definition join_pairs :: "string list \<Rightarrow> frame \<Rightarrow> frame \<Rightarrow> (nat \<times> nat) list" where
  "join_pairs keys l r =
     concat (map (\<lambda>i.
       map (Pair i)
         (filter (\<lambda>j. key_cells keys (columns r) (rows r ! j) = key_cells keys (columns l) (rows l ! i))
            [0..<length (rows r)]))
       [0..<length (rows l)])"

definition joined_row :: "string list \<Rightarrow> frame \<Rightarrow> frame \<Rightarrow> nat \<times> nat \<Rightarrow> pyval list" where
  "joined_row keys l r p =
     rows l ! fst p @ non_key_cells keys (columns r) (rows r ! snd p) @ [VStr ''both'']"

text \<open>
  Two records that differ in their key field \<open>name\<close> (as fuzzy matching pairs them) and
  have one field each that the other lacks.
\<close>

definition record_ab :: series where
  "record_ab = [(''name'', VStr ''ab''), (''only_a'', VInt 1)]"

definition record_ac :: series where
  "record_ac = [(''name'', VStr ''ac''), (''only_b'', VInt 2)]"

text \<open>
  A record of B with the same \<open>name\<close> as \<open>record_ab\<close> and a field of its own.
\<close>

definition record_ab_b :: series where
  "record_ab_b = [(''name'', VStr ''ab''), (''only_b'', VInt 2)]"

text \<open>
  A source B with the conflicting field \<open>val\<close> and a field \<open>extra\<close> that A lacks:
  \<open>{'id': [1], 'idx_b': [0], 'val': ['y'], 'extra': ['e']}\<close>, and
  \<open>MergeConfig(key_fields=['id'], merge_similar=False, conflict_strategy=KEEP_SOURCE_B)\<close>.
\<close>

definition frame_b_extra :: frame where
  "frame_b_extra =
     \<lparr>columns = [''id'', ''idx_b'', ''val'', ''extra''],
      rows = [[VInt 1, VInt 0, VStr ''y'', VStr ''e'']],
      dtypes = [Int64, Int64, Object, Object]\<rparr>"

definition source_b_config :: MergeConfig where
  "source_b_config = (exact_config [''id''])\<lparr>conflict_strategy := KEEP_SOURCE_B\<rparr>"

text \<open>
  The sources of the strategy examples as frames: \<open>{'id': [1], 'val': ['x'], 'ts': [10]}\<close>
  and \<open>{'id': [1], 'val': ['y'], 'ts': [20]}\<close>.
\<close>

definition frame_x :: frame where
  "frame_x =
     \<lparr>columns = [''id'', ''val'', ''ts''], rows = [[VInt 1, VStr ''x'', VInt 10]],
      dtypes = [Int64, Object, Int64]\<rparr>"

definition frame_y :: frame where
  "frame_y =
     \<lparr>columns = [''id'', ''val'', ''ts''], rows = [[VInt 1, VStr ''y'', VInt 20]],
      dtypes = [Int64, Object, Int64]\<rparr>"

section \<open>Fuzzy matching as the specification words it\<close>











section \<open>General facts about the pipeline\<close>

lemma bind_err_Inr_iff: "bind_err m f = Inr y \<longleftrightarrow> (\<exists>x. m = Inr x \<and> f x = Inr y)"
  by (cases m) (simp_all add: bind_err_def)

lemma bind_err_simps: "bind_err (Inl e) f = Inl e" "bind_err (Inr x) f = f x"
  by (simp_all add: bind_err_def)

text \<open>What a run of \<open>merge\<close> that reaches the statistics went through.\<close>

lemma merge_body_Inr:
  assumes "merge_body sa sb cfg = (reports, Inr (final, st))"
  shows "\<exists>a0 b0 df_a df_b ms resolved all_data.
    to_dataframe sa = Inr a0 \<and> to_dataframe sb = Inr b0
    \<and> validate_merge_keys (apply_field_mappings a0 (field_mappings cfg))
         (apply_field_mappings b0 (field_mappings cfg)) cfg = Inr ()
    \<and> prepare_merge_keys (apply_field_mappings a0 (field_mappings cfg))
         (apply_field_mappings b0 (field_mappings cfg)) cfg = Inr (df_a, df_b)
    \<and> find_matches df_a df_b cfg = Inr ms
    \<and> resolve_conflicts df_a df_b ms cfg = (reports, Inr resolved)
    \<and> handle_unmatched resolved df_a df_b ms cfg = Inr all_data
    \<and> final = cleanup_merged_data all_data (ignored_fields cfg)
    \<and> st = [(''total_records'', int (length (rows final))),
             (''matches_found'', int (match_count ms)),
             (''conflicts_resolved'', int (length reports)),
             (''source_a_only'', int (length (rows df_a)) - int (match_count ms)),
             (''source_b_only'', int (length (rows df_b)) - int (match_count ms))]"
  using assms unfolding merge_body_def Let_def
  by (auto simp: bind_err_Inr_iff split: sum.splits prod.splits)

lemma merge_success:
  "success (merge sa sb cfg)
   \<longleftrightarrow> (\<exists>reports final st. merge_body sa sb cfg = (reports, Inr (final, st)))"
  unfolding merge_def by (auto split: sum.splits prod.splits)

lemma merge_of_body_Inr:
  "merge_body sa sb cfg = (reports, Inr (final, st)) \<Longrightarrow>
   merge sa sb cfg = \<lparr>success = True, merged_data = Some final, conflicts = reports,
                       stats = st, errors = [], warnings = []\<rparr>"
  unfolding merge_def by simp

lemma columns_drop_columns:
  "columns (drop_columns df names) = filter (\<lambda>c. c \<notin> set names) (columns df)"
  by (simp add: drop_columns_def)

lemma cleanup_no_suffix:
  "c \<in> set (columns (cleanup_merged_data df ign)) \<Longrightarrow> \<not> is_suffix_col c"
  unfolding cleanup_merged_data_def Let_def by (auto simp: columns_drop_columns)

lemma validate_keys_fail:
  "\<not> set ks \<subseteq> set (columns a) \<inter> set (columns b) \<Longrightarrow>
   \<exists>k side. k \<in> set ks
      \<and> (side = ''A'' \<and> k \<notin> set (columns a) \<or> side = ''B'' \<and> k \<notin> set (columns b))
      \<and> validate_keys a b ks = Inl (ValidationError, missing_key_msg k side)"
proof (induction ks)
  case Nil
  then show ?case by simp
next
  case (Cons k ks)
  show ?case
  proof (cases "k \<in> set (columns a) \<and> k \<in> set (columns b)")
    case True
    with Cons.prems have "\<not> set ks \<subseteq> set (columns a) \<inter> set (columns b)" by auto
    from Cons.IH[OF this] obtain k' side where
      "k' \<in> set ks"
      "side = ''A'' \<and> k' \<notin> set (columns a) \<or> side = ''B'' \<and> k' \<notin> set (columns b)"
      "validate_keys a b ks = Inl (ValidationError, missing_key_msg k' side)" by blast
    with True show ?thesis by (intro exI[of _ k'] exI[of _ side]) simp
  next
    case False
    show ?thesis
    proof (cases "k \<in> set (columns a)")
      case True
      with False show ?thesis by (intro exI[of _ k] exI[of _ "''B''"]) simp
    next
      case False
      then show ?thesis by (intro exI[of _ k] exI[of _ "''A''"]) simp
    qed
  qed
qed

lemma merge_body_validate_fail:
  assumes "validate_merge_keys (apply_field_mappings a0 (field_mappings cfg))
         (apply_field_mappings b0 (field_mappings cfg)) cfg = Inl e"
  shows "merge_body (SrcFrame a0) (SrcFrame b0) cfg = ([], Inl e)"
  using assms unfolding merge_body_def Let_def by (simp add: bind_err_simps)

lemma validate_keys_ok_iff:
  "validate_keys a b ks = Inr () \<longleftrightarrow> set ks \<subseteq> set (columns a) \<inter> set (columns b)"
  by (induction ks) auto

subsection \<open>The pairs of the two match steps\<close>

lemma match_pair_simp: "match_pair (i, j, s) = (i, j)"
  by (simp add: match_pair_def)

lemma scan_b_pairs:
  "scan_b df_a df_b config i ra j rbs = Inr ms \<Longrightarrow>
   distinct (map match_pair ms) \<and> (\<forall>m \<in> set ms. fst m = i \<and> j \<le> fst (snd m))"
proof (induction rbs arbitrary: j ms)
  case Nil
  then show ?case by simp
next
  case (Cons rb rbs)
  from Cons.prems obtain avg ms' where
    rest: "scan_b df_a df_b config i ra (Suc j) rbs = Inr ms'"
    and ms: "ms = (if avg \<ge> similarity_threshold config then (i, j, avg) # ms' else ms')"
    by (auto simp: bind_err_Inr_iff)
  from Cons.IH[OF rest] have d: "distinct (map match_pair ms')"
    and b: "\<forall>m \<in> set ms'. fst m = i \<and> Suc j \<le> fst (snd m)" by auto
  from b have n: "(i, j) \<notin> set (map match_pair ms')"
    by (auto simp: match_pair_def)
  from b have b': "\<forall>m \<in> set ms'. fst m = i \<and> j \<le> fst (snd m)" by auto
  show ?case
  proof (cases "avg \<ge> similarity_threshold config")
    case True
    with ms have "ms = (i, j, avg) # ms'" by simp
    with d n b' show ?thesis by (simp add: match_pair_simp)
  next
    case False
    with ms have "ms = ms'" by simp
    with d b' show ?thesis by simp
  qed
qed

lemma scan_a_pairs:
  "scan_a df_a df_b config i ras = Inr ms \<Longrightarrow>
   distinct (map match_pair ms) \<and> (\<forall>m \<in> set ms. i \<le> fst m)"
proof (induction ras arbitrary: i ms)
  case Nil
  then show ?case by simp
next
  case (Cons ra ras)
  from Cons.prems obtain ms1 ms2 where
    first: "scan_b df_a df_b config i ra 0 (rows df_b) = Inr ms1"
    and rest: "scan_a df_a df_b config (Suc i) ras = Inr ms2"
    and ms: "ms = ms1 @ ms2"
    by (auto simp: bind_err_Inr_iff)
  from scan_b_pairs[OF first] have d1: "distinct (map match_pair ms1)"
    and b1: "\<forall>m \<in> set ms1. fst m = i" by auto
  from Cons.IH[OF rest] have d2: "distinct (map match_pair ms2)"
    and b2: "\<forall>m \<in> set ms2. Suc i \<le> fst m" by auto
  from b1 b2 have "set (map match_pair ms1) \<inter> set (map match_pair ms2) = {}"
    by (fastforce simp: match_pair_def)
  moreover from b1 b2 have "\<forall>m \<in> set (ms1 @ ms2). i \<le> fst m" by auto
  ultimately show ?case using d1 d2 ms by simp
qed

lemma distinct_indexed_concat:
  "distinct is \<Longrightarrow> (\<And>i. distinct (f i)) \<Longrightarrow>
   distinct (concat (map (\<lambda>i. map (Pair i) (f i)) is))"
  by (induction "is") (auto simp: distinct_map inj_on_def)

lemma distinct_join_pairs: "distinct (join_pairs keys l r)"
  unfolding join_pairs_def by (rule distinct_indexed_concat) simp_all

lemma filter_by_index:
  "map g (filter P xs) = map (\<lambda>j. g (xs ! j)) (filter (\<lambda>j. P (xs ! j)) [0..<length xs])"
proof -
  have "map g (filter P xs) = map g (filter P (map (\<lambda>j. xs ! j) [0..<length xs]))"
    by (simp add: map_nth)
  also have "\<dots> = map (\<lambda>j. g (xs ! j)) (filter (\<lambda>j. P (xs ! j)) [0..<length xs])"
    by (simp add: filter_map comp_def)
  finally show ?thesis .
qed

lemma map_by_index: "map h xs = map (\<lambda>i. h (xs ! i)) [0..<length xs]"
  using filter_by_index[of h "\<lambda>_. True" xs] by simp

lemma join_rows_by_pairs:
  "join_rows keys l r = map (joined_row keys l r) (join_pairs keys l r)"
proof -
  let ?inner = "\<lambda>ra. map (\<lambda>rb. ra @ non_key_cells keys (columns r) rb @ [VStr ''both''])
         (filter (\<lambda>rb. key_cells keys (columns r) rb = key_cells keys (columns l) ra) (rows r))"
  have "join_rows keys l r = concat (map ?inner (rows l))"
    by (simp add: join_rows_def)
  also have "\<dots> = concat (map (\<lambda>i. ?inner (rows l ! i)) [0..<length (rows l)])"
    by (subst map_by_index) (rule refl)
  also have "\<dots> = map (joined_row keys l r) (join_pairs keys l r)"
    unfolding join_pairs_def joined_row_def
    by (simp add: map_concat comp_def filter_by_index[where xs="rows r"])
  finally show ?thesis .
qed

subsection \<open>Conflicts of a pair and the fill of \<open>combine_first\<close>\<close>

lemma find_conflicts_iff:
  "(field, va, vb) \<in> set (find_conflicts record_a record_b)
   \<longleftrightarrow> (field, va) \<in> set record_a \<and> map_of record_b field = Some vb
       \<and> va \<noteq> VNaN \<and> vb \<noteq> VNaN \<and> va \<noteq> vb"
proof (induction record_a)
  case Nil
  then show ?case by (simp add: find_conflicts_def)
next
  case (Cons p record_a)
  obtain f v where p: "p = (f, v)" by (cases p)
  have step: "find_conflicts (p # record_a) record_b
        = (case map_of record_b f of
             None \<Rightarrow> []
           | Some val_b \<Rightarrow>
               (if \<not> isna v \<and> \<not> isna val_b \<and> py_ne v val_b then [(f, v, val_b)] else []))
          @ find_conflicts record_a record_b"
    by (simp add: find_conflicts_def p)
  show ?case
  proof (cases "map_of record_b f")
    case None
    with step Cons.IH p show ?thesis by auto
  next
    case (Some w)
    with step Cons.IH p show ?thesis
      by (auto simp: isna_def py_ne_def py_eq_def)
  qed
qed

lemma map_of_tabulate:
  "f \<in> set xs \<Longrightarrow> map_of (map (\<lambda>l. (l, g l)) xs) f = Some (g f)"
  by (induction xs) auto

lemma map_of_label: "f \<in> set (map fst xs) \<Longrightarrow> \<exists>v. map_of xs f = Some v"
  by (induction xs) auto

lemma map_of_no_label: "f \<notin> set (map fst xs) \<Longrightarrow> map_of xs f = None"
  by (induction xs) auto

lemma union_index:
  "set (if lb = [] \<or> la = lb then la else if la = [] then lb else sort (remdups (la @ lb)))
     = set la \<union> set lb"
  by auto

lemma combine_first_labels:
  "set (map fst (combine_first a b)) = set (map fst a) \<union> set (map fst b)"
proof -
  have "map fst (combine_first a b)
        = (if map fst b = [] \<or> map fst a = map fst b then map fst a
           else if map fst a = [] then map fst b
           else sort (remdups (map fst a @ map fst b)))"
    unfolding combine_first_def Let_def by (simp add: comp_def)
  then show ?thesis by (simp only: union_index)
qed

lemma combine_first_value:
  assumes "f \<in> set (map fst a) \<union> set (map fst b)"
  shows "map_of (combine_first a b) f
     = Some (case map_of a f of
               Some v \<Rightarrow> (if isna v then (case map_of b f of Some w \<Rightarrow> w | None \<Rightarrow> VNaN) else v)
             | None \<Rightarrow> (case map_of b f of Some w \<Rightarrow> w | None \<Rightarrow> VNaN))"
proof -
  let ?idx = "(if map fst b = [] \<or> map fst a = map fst b then map fst a
               else if map fst a = [] then map fst b
               else sort (remdups (map fst a @ map fst b)))"
  from assms have "f \<in> set ?idx" by (simp only: union_index)
  then show ?thesis unfolding combine_first_def Let_def by (rule map_of_tabulate)
qed

lemma label_of_entry: "(f, v) \<in> set xs \<Longrightarrow> f \<in> set (map fst xs)"
  by (induction xs) auto

lemma label_of_map_of: "map_of xs f = Some v \<Longrightarrow> f \<in> set (map fst xs)"
  by (induction xs) (auto split: if_splits)

lemma conflict_field_in_both:
  assumes "field \<in> set (map fst (find_conflicts a b))"
  shows "field \<in> set (map fst a) \<and> field \<in> set (map fst b)"
proof -
  from assms have "field \<in> fst ` set (find_conflicts a b)" by (simp only: set_map)
  then obtain c where c: "c \<in> set (find_conflicts a b)" and f: "field = fst c"
    by (rule imageE)
  obtain x y where xy: "c = (field, x, y)" using f by (cases c) simp
  from c xy have "(field, x, y) \<in> set (find_conflicts a b)" by simp
  then have "(field, x) \<in> set a" and "map_of b field = Some y"
    by (simp_all only: find_conflicts_iff)
  then show ?thesis by (simp only: label_of_entry label_of_map_of simp_thms)
qed

lemma fill_a_only:
  assumes "field \<in> set (map fst a)" "field \<notin> set (map fst b)"
  shows "map_of (combine_first a b) field = map_of a field"
proof -
  from map_of_label[OF assms(1)] obtain v where v: "map_of a field = Some v"
    by blast
  from assms(2) have n: "map_of b field = None" by (rule map_of_no_label)
  from assms(1) have "field \<in> set (map fst a) \<union> set (map fst b)" by (rule UnI1)
  from combine_first_value[OF this] show ?thesis
    by (cases v) (simp_all add: v n isna_def)
qed

lemma fill_b_only:
  assumes "field \<notin> set (map fst a)" "field \<in> set (map fst b)"
  shows "map_of (combine_first a b) field = map_of b field"
proof -
  from map_of_label[OF assms(2)] obtain w where w: "map_of b field = Some w"
    by blast
  from assms(1) have n: "map_of a field = None" by (rule map_of_no_label)
  from assms(2) have "field \<in> set (map fst a) \<union> set (map fst b)" by (rule UnI2)
  from combine_first_value[OF this] show ?thesis by (simp add: w n)
qed

lemma fill_both:
  assumes "field \<in> set (map fst a)" "field \<in> set (map fst b)"
  shows "map_of (combine_first a b) field
           = (if map_of a field = Some VNaN then map_of b field else map_of a field)"
proof -
  from map_of_label[OF assms(1)] obtain v where v: "map_of a field = Some v"
    by blast
  from map_of_label[OF assms(2)] obtain w where w: "map_of b field = Some w"
    by blast
  from assms(1) have "field \<in> set (map fst a) \<union> set (map fst b)" by (rule UnI1)
  from combine_first_value[OF this] show ?thesis
    by (cases v) (simp_all add: v w isna_def)
qed

lemma resolve_pair_no_conflict:
  "find_conflicts a b = [] \<Longrightarrow> resolve_pair a b config = Inr ([], combine_first a b)"
  by (simp add: resolve_pair_def)

subsection \<open>The resolution step on the records of the strategy examples\<close>

text \<open>
  \<open>_apply_resolution_strategy\<close> alone, on the records \<open>{id: 1, val: "x", ts: 10}\<close> and
  \<open>{id: 1, val: "y", ts: 20}\<close> with \<open>timestamp_field = 'ts'\<close>: the value of \<open>val\<close> is \<open>y\<close>
  under KEEP_NEWEST, \<open>x\<close> under KEEP_OLDEST, \<open>x\<close> under KEEP_SOURCE_A, \<open>y\<close> under
  KEEP_SOURCE_B and \<open>x | y\<close> under COMBINE, for the conflicts that \<open>_find_conflicts\<close>
  reports (\<open>val\<close> and \<open>ts\<close>) and for the single conflicting field \<open>val\<close>.
\<close>

lemma resolution_step_values:
  "find_conflicts record_x record_y
     = [(''val'', VStr ''x'', VStr ''y''), (''ts'', VInt 10, VInt 20)]
   \<and> resolved_val (find_conflicts record_x record_y) KEEP_NEWEST = Inr (VStr ''y'')
   \<and> resolved_val (find_conflicts record_x record_y) KEEP_OLDEST = Inr (VStr ''x'')
   \<and> resolved_val (find_conflicts record_x record_y) KEEP_SOURCE_A = Inr (VStr ''x'')
   \<and> resolved_val (find_conflicts record_x record_y) KEEP_SOURCE_B = Inr (VStr ''y'')
   \<and> resolved_val (find_conflicts record_x record_y) COMBINE = Inr (VStr ''x | y'')
   \<and> resolved_val [(''val'', VStr ''x'', VStr ''y'')] KEEP_NEWEST = Inr (VStr ''y'')
   \<and> resolved_val [(''val'', VStr ''x'', VStr ''y'')] KEEP_OLDEST = Inr (VStr ''x'')
   \<and> resolved_val [(''val'', VStr ''x'', VStr ''y'')] KEEP_SOURCE_A = Inr (VStr ''x'')
   \<and> resolved_val [(''val'', VStr ''x'', VStr ''y'')] KEEP_SOURCE_B = Inr (VStr ''y'')
   \<and> resolved_val [(''val'', VStr ''x'', VStr ''y'')] COMBINE = Inr (VStr ''x | y'')"
  by code_simp

subsection \<open>The fuzzy match step computes the matches of the specification\<close>















section \<open>Claims\<close>

text \<open>
  Claim C8. If a field of \<open>config.key_fields\<close> is absent from one of the field-mapped
  sources, \<open>merge\<close> returns \<open>success = False\<close>, leaves \<open>merged_data\<close> empty, and its one
  error message is that of the ValidationError raised by \<open>_validate_merge_keys\<close>,
  which names a missing field and the side (A or B) it is missing from.
\<close>

theorem missing_key_rejected:
  assumes "\<not> set (key_fields config)
             \<subseteq> set (columns (apply_field_mappings a0 (field_mappings config)))
               \<inter> set (columns (apply_field_mappings b0 (field_mappings config)))"
  shows "\<exists>k side. k \<in> set (key_fields config)
      \<and> (side = ''A'' \<and> k \<notin> set (columns (apply_field_mappings a0 (field_mappings config)))
         \<or> side = ''B'' \<and> k \<notin> set (columns (apply_field_mappings b0 (field_mappings config))))
      \<and> validate_merge_keys (apply_field_mappings a0 (field_mappings config))
           (apply_field_mappings b0 (field_mappings config)) config
          = Inl (ValidationError, ''Merge key '' @ py_repr_str k @ '' not found in source '' @ side)
      \<and> merge (SrcFrame a0) (SrcFrame b0) config
          = \<lparr>success = False, merged_data = None, conflicts = [], stats = [],
             errors = [''Merge key '' @ py_repr_str k @ '' not found in source '' @ side],
             warnings = []\<rparr>"
proof -
  from validate_keys_fail[OF assms] obtain k side where
    k: "k \<in> set (key_fields config)"
    "side = ''A'' \<and> k \<notin> set (columns (apply_field_mappings a0 (field_mappings config)))
         \<or> side = ''B'' \<and> k \<notin> set (columns (apply_field_mappings b0 (field_mappings config)))"
    and v: "validate_keys (apply_field_mappings a0 (field_mappings config))
           (apply_field_mappings b0 (field_mappings config)) (key_fields config)
          = Inl (ValidationError, missing_key_msg k side)" by blast
  from v have v': "validate_merge_keys (apply_field_mappings a0 (field_mappings config))
           (apply_field_mappings b0 (field_mappings config)) config
          = Inl (ValidationError, missing_key_msg k side)"
    by (simp add: validate_merge_keys_def)
  have "merge (SrcFrame a0) (SrcFrame b0) config
          = \<lparr>success = False, merged_data = None, conflicts = [], stats = [],
             errors = [missing_key_msg k side], warnings = []\<rparr>"
    unfolding merge_def merge_body_validate_fail[OF v'] by simp
  with k v' show ?thesis unfolding missing_key_msg_def by blast
qed

text \<open>
  The hypothesis holds of \<open>{'id': [1]}\<close> against \<open>{'name': ['x']}\<close> with the key \<open>id\<close>:
  the call fails with the message \<open>Merge key 'id' not found in source B\<close>.
\<close>

theorem missing_key_rejected_witness:
  "\<not> set (key_fields (default_config [''id'']))
       \<subseteq> set (columns (apply_field_mappings frame_id (field_mappings (default_config [''id'']))))
         \<inter> set (columns (apply_field_mappings frame_name (field_mappings (default_config [''id'']))))
   \<and> merge (SrcFrame frame_id) (SrcFrame frame_name) (default_config [''id''])
       = \<lparr>success = False, merged_data = None, conflicts = [], stats = [],
          errors = [''Merge key '' @ py_repr_str ''id'' @ '' not found in source B''],
          warnings = []\<rparr>"
proof -
  have h: "\<not> set (key_fields (default_config [''id'']))
       \<subseteq> set (columns (apply_field_mappings frame_id (field_mappings (default_config [''id'']))))
         \<inter> set (columns (apply_field_mappings frame_name (field_mappings (default_config [''id'']))))"
    by (simp add: default_config_def apply_field_mappings_def frame_id_def frame_name_def)
  from missing_key_rejected[OF h] obtain k side where
    k: "k \<in> set (key_fields (default_config [''id'']))"
    and side: "side = ''A'' \<and> k \<notin> set (columns (apply_field_mappings frame_id (field_mappings (default_config [''id'']))))
         \<or> side = ''B'' \<and> k \<notin> set (columns (apply_field_mappings frame_name (field_mappings (default_config [''id'']))))"
    and m: "merge (SrcFrame frame_id) (SrcFrame frame_name) (default_config [''id''])
          = \<lparr>success = False, merged_data = None, conflicts = [], stats = [],
             errors = [''Merge key '' @ py_repr_str k @ '' not found in source '' @ side],
             warnings = []\<rparr>"
    by blast
  from k have "k = ''id''" by (simp add: default_config_def)
  moreover from side this have "side = ''B''"
    by (auto simp: default_config_def apply_field_mappings_def frame_id_def)
  ultimately show ?thesis using h m by simp
qed

text \<open>
  Claim C10. Whenever \<open>merge\<close> succeeds, no column of \<open>merged_data\<close> has a name ending
  in \<open>_a\<close> or \<open>_b\<close>: the cleanup drops every such column, whatever its origin.
\<close>

theorem merged_data_has_no_suffix_columns:
  assumes "success (merge source_a source_b config)"
  shows "\<exists>t. merged_data (merge source_a source_b config) = Some t
           \<and> (\<forall>c \<in> set (columns t). \<not> endswith c ''_a'' \<and> \<not> endswith c ''_b'')"
proof -
  from assms obtain reports final st
    where body: "merge_body source_a source_b config = (reports, Inr (final, st))"
    by (auto simp: merge_success)
  from merge_body_Inr[OF body] obtain all_data
    where "final = cleanup_merged_data all_data (ignored_fields config)" by blast
  then have "\<forall>c \<in> set (columns final). \<not> is_suffix_col c"
    using cleanup_no_suffix by blast
  then show ?thesis
    using merge_of_body_Inr[OF body] by (simp add: is_suffix_col_def)
qed

text \<open>
  A successful call: the sources \<open>{'id': [1], 'idx_a': [0]}\<close> and
  \<open>{'id': [1], 'idx_b': [0]}\<close> joined on \<open>id\<close>. Their own columns \<open>idx_a\<close> and \<open>idx_b\<close> are
  input data, and they are gone from the result.
\<close>

theorem merged_data_has_no_suffix_columns_witness:
  "success (merge (SrcFrame frame_a_idx) (SrcFrame frame_b_idx) (exact_config [''id'']))
   \<and> merged_data (merge (SrcFrame frame_a_idx) (SrcFrame frame_b_idx) (exact_config [''id'']))
       = Some \<lparr>columns = [''id''], rows = [[VInt 1]]\<rparr>
   \<and> (\<exists>t. merged_data (merge (SrcFrame frame_a_idx) (SrcFrame frame_b_idx) (exact_config [''id'']))
           = Some t
         \<and> (\<forall>c \<in> set (columns t). \<not> endswith c ''_a'' \<and> \<not> endswith c ''_b''))"
proof -
  have s: "success (merge (SrcFrame frame_a_idx) (SrcFrame frame_b_idx) (exact_config [''id'']))"
    by code_simp
  have d: "merged_data (merge (SrcFrame frame_a_idx) (SrcFrame frame_b_idx) (exact_config [''id'']))
       = Some \<lparr>columns = [''id''], rows = [[VInt 1]]\<rparr>"
    by code_simp
  from s d merged_data_has_no_suffix_columns[OF s] show ?thesis by blast
qed

text \<open>
  Claim C1 (exact mode completes with \<open>success = True\<close> on the inner join). The join
  itself is found: for \<open>{'id': [1]}\<close> against itself \<open>_find_matches\<close> returns the one
  joined row. But that frame has no columns \<open>idx_a\<close> and \<open>idx_b\<close>, which
  \<open>_resolve_conflicts\<close> reads from every row, so \<open>merge\<close> ends with \<open>KeyError: 'idx_a'\<close>
  and \<open>success = False\<close>.
\<close>

theorem exact_merge_fails_on_joined_frame:
  "find_matches frame_id frame_id (exact_config [''id''])
     = Inr (Joined \<lparr>columns = [''id'', ''_merge''], rows = [[VInt 1, VStr ''both'']]\<rparr>)
   \<and> merge (SrcFrame frame_id) (SrcFrame frame_id) (exact_config [''id''])
     = \<lparr>success = False, merged_data = None, conflicts = [], stats = [],
        errors = [py_repr_str ''idx_a''], warnings = []\<rparr>"
  by code_simp

text \<open>
  Claim C2 (a non-empty A against an empty B gives a copy of A). With \<open>{'id': [1]}\<close>
  against \<open>{'id': []}\<close> there is no match. In fuzzy mode the frame of an empty match
  list has no column, in exact mode the joined frame has no column \<open>idx_a\<close>; either
  way \<open>_handle_unmatched\<close> raises \<open>KeyError: 'idx_a'\<close> and \<open>merge\<close> fails.
\<close>

theorem empty_source_merge_fails:
  "merge (SrcFrame frame_id) (SrcFrame frame_id_empty) (default_config [''id''])
     = \<lparr>success = False, merged_data = None, conflicts = [], stats = [],
        errors = [py_repr_str ''idx_a''], warnings = []\<rparr>
   \<and> merge (SrcFrame frame_id) (SrcFrame frame_id_empty) (exact_config [''id''])
     = \<lparr>success = False, merged_data = None, conflicts = [], stats = [],
        errors = [py_repr_str ''idx_a''], warnings = []\<rparr>"
  by code_simp

text \<open>
  Claim C3 (conservation law of the statistics). The sources
  \<open>{'id': [1, 1], 'idx_a': [0, 0]}\<close> and \<open>{'id': [1], 'idx_b': [0]}\<close> merge successfully:
  two joined rows, both pointing at row 0 of A, and row 1 of A unmatched. The
  statistics count 3 records, 2 matches, 0 records of A only and -1 of B only.
\<close>

theorem stats_not_conserved:
  "merge (SrcFrame frame_a_twice) (SrcFrame frame_b_idx) (exact_config [''id''])
     = \<lparr>success = True,
        merged_data = Some \<lparr>columns = [''id''], rows = [[VInt 1], [VInt 1], [VInt 1]]\<rparr>,
        conflicts = [],
        stats = [(''total_records'', 3), (''matches_found'', 2), (''conflicts_resolved'', 0),
                 (''source_a_only'', 0), (''source_b_only'', - 1)],
        errors = [], warnings = []\<rparr>"
  by code_simp

text \<open>
  Claim C6 (in exact-match mode the records \<open>{id: 1, val: "x", ts: 10}\<close> and
  \<open>{id: 1, val: "y", ts: 20}\<close> resolve \<open>val\<close> to \<open>y\<close>, \<open>x\<close>, \<open>x\<close>, \<open>y\<close> and \<open>x | y\<close> under the
  five strategies). In exact-match mode the two sources are joined on \<open>id\<close> into one row
  with the columns \<open>id\<close>, \<open>val_a\<close>, \<open>ts_a\<close>, \<open>val_b\<close>, \<open>ts_b\<close> and \<open>_merge\<close>. That row has no
  column \<open>idx_a\<close>, so \<open>_resolve_conflicts\<close> raises \<open>KeyError: 'idx_a'\<close> before
  \<open>_apply_resolution_strategy\<close> is called: under each of the five strategies \<open>merge\<close>
  returns \<open>success = False\<close> and no merged data, hence no resolved value of \<open>val\<close>.
\<close>

theorem strategy_examples_fail_in_exact_mode:
  "find_matches frame_x frame_y (strategy_config KEEP_NEWEST)
     = Inr (Joined \<lparr>columns = [''id'', ''val_a'', ''ts_a'', ''val_b'', ''ts_b'', ''_merge''],
                     rows = [[VInt 1, VStr ''x'', VInt 10, VStr ''y'', VInt 20, VStr ''both'']]\<rparr>)
   \<and> map (\<lambda>s. merge (SrcFrame frame_x) (SrcFrame frame_y) (strategy_config s))
         [KEEP_NEWEST, KEEP_OLDEST, KEEP_SOURCE_A, KEEP_SOURCE_B, COMBINE]
       = replicate 5 \<lparr>success = False, merged_data = None, conflicts = [], stats = [],
                        errors = [py_repr_str ''idx_a''], warnings = []\<rparr>"
  by code_simp

text \<open>
  Claim C9 (a CUSTOM strategy without resolver, or KEEP_NEWEST/KEEP_OLDEST without
  timestamp field, is caught at validation and the call fails). It is not: with
  \<open>conflict_strategy = CUSTOM\<close> and no resolver, the sources
  \<open>{'id': [1], 'idx_a': [0], 'val': ['x']}\<close> and \<open>{'id': [1], 'idx_b': [0], 'val': ['y']}\<close>
  merge successfully, the conflict on \<open>val\<close> being settled for \<open>x\<close>; and so does the
  default KEEP_NEWEST without timestamp field.
\<close>

theorem invalid_strategy_config_completes:
  "conflict_strategy custom_config = CUSTOM
   \<and> custom_resolver custom_config = None
   \<and> merge (SrcFrame frame_a_val) (SrcFrame frame_b_val) custom_config
     = \<lparr>success = True,
        merged_data = Some \<lparr>columns = [''id'', ''val''], rows = [[VInt 1, VStr ''x'']]\<rparr>,
        conflicts = [\<lparr>key_values = [(''id'', VInt 1)],
                      fields_c = [(''val'', VStr ''x'', VStr ''y'')],
                      resolution = [(''id'', VInt 1), (''idx_a'', VInt 0), (''val'', VStr ''x'')]\<rparr>],
        stats = [(''total_records'', 1), (''matches_found'', 1), (''conflicts_resolved'', 1),
                 (''source_a_only'', 0), (''source_b_only'', 0)],
        errors = [], warnings = []\<rparr>
   \<and> conflict_strategy (exact_config [''id'']) = KEEP_NEWEST
   \<and> timestamp_field (exact_config [''id'']) = None
   \<and> success (merge (SrcFrame frame_a_val) (SrcFrame frame_b_val) (exact_config [''id'']))"
proof -
  have "conflict_strategy custom_config = CUSTOM" "custom_resolver custom_config = None"
    "conflict_strategy (exact_config [''id'']) = KEEP_NEWEST"
    "timestamp_field (exact_config [''id'']) = None"
    by (simp_all add: custom_config_def exact_config_def default_config_def)
  moreover have "merge (SrcFrame frame_a_val) (SrcFrame frame_b_val) custom_config
     = \<lparr>success = True,
        merged_data = Some \<lparr>columns = [''id'', ''val''], rows = [[VInt 1, VStr ''x'']]\<rparr>,
        conflicts = [\<lparr>key_values = [(''id'', VInt 1)],
                      fields_c = [(''val'', VStr ''x'', VStr ''y'')],
                      resolution = [(''id'', VInt 1), (''idx_a'', VInt 0), (''val'', VStr ''x'')]\<rparr>],
        stats = [(''total_records'', 1), (''matches_found'', 1), (''conflicts_resolved'', 1),
                 (''source_a_only'', 0), (''source_b_only'', 0)],
        errors = [], warnings = []\<rparr>"
    by code_simp
  moreover have "success (merge (SrcFrame frame_a_val) (SrcFrame frame_b_val) (exact_config [''id'']))"
    by code_simp
  ultimately show ?thesis by simp
qed

text \<open>
  Claim C9 as amended. Such a configuration is not rejected: the validation step
  passes exactly when every key field is a column of both sources, whatever the
  strategy, and the resolution step raises nothing and keeps the record of source A
  unchanged.
\<close>

theorem unchecked_strategy_config_keeps_source_a:
  assumes "conflict_strategy config = CUSTOM \<and> custom_resolver config = None
           \<or> (conflict_strategy config = KEEP_NEWEST \<or> conflict_strategy config = KEEP_OLDEST)
              \<and> \<not> truthy (timestamp_field config)"
  shows "(validate_merge_keys df_a df_b config = Inr ()
            \<longleftrightarrow> set (key_fields config) \<subseteq> set (columns df_a) \<inter> set (columns df_b))
         \<and> apply_resolution_strategy record_a record_b cs config = Inr record_a"
  using assms
  by (auto simp: validate_merge_keys_def validate_keys_ok_iff apply_resolution_strategy_def)

text \<open>
  The hypothesis holds of the default strategy KEEP_NEWEST without timestamp field:
  validation passes and the resolved record is the record of A.
\<close>

theorem unchecked_strategy_config_keeps_source_a_witness:
  "conflict_strategy (exact_config [''id'']) = KEEP_NEWEST
   \<and> \<not> truthy (timestamp_field (exact_config [''id'']))
   \<and> validate_merge_keys frame_a_val frame_b_val (exact_config [''id'']) = Inr ()
   \<and> apply_resolution_strategy record_x record_y (find_conflicts record_x record_y)
        (exact_config [''id'']) = Inr record_x"
proof -
  have h: "conflict_strategy (exact_config [''id'']) = KEEP_NEWEST
           \<and> \<not> truthy (timestamp_field (exact_config [''id'']))"
    by (simp add: exact_config_def default_config_def truthy_def)
  have k: "set (key_fields (exact_config [''id'']))
             \<subseteq> set (columns frame_a_val) \<inter> set (columns frame_b_val)"
    by (simp add: exact_config_def default_config_def frame_a_val_def frame_b_val_def)
  from h have "conflict_strategy (exact_config [''id'']) = CUSTOM
                 \<and> custom_resolver (exact_config [''id'']) = None
           \<or> (conflict_strategy (exact_config [''id'']) = KEEP_NEWEST
               \<or> conflict_strategy (exact_config [''id'']) = KEEP_OLDEST)
              \<and> \<not> truthy (timestamp_field (exact_config [''id'']))" by simp
  from unchecked_strategy_config_keeps_source_a[OF this, of frame_a_val frame_b_val
      record_x record_y "find_conflicts record_x record_y"] h k
  show ?thesis by simp
qed

text \<open>
  Claim C4 (each record of A and of B takes part in at most one reported match). It
  does not: nothing in either match step keeps a record from being matched again.
  Fuzzy matching of \<open>{'k': ['a', 'a']}\<close> against \<open>{'k': ['a']}\<close> reports the pairs \<open>(0, 0)\<close>
  and \<open>(1, 0)\<close>, both with the one record of B; and the inner join of
  \<open>{'id': [1, 1], 'idx_a': [0, 0]}\<close> with \<open>{'id': [1], 'idx_b': [0]}\<close> on \<open>id\<close> has the rows of
  the same two pairs.
\<close>

theorem record_in_two_matches:
  "find_similar_matches frame_k_twice frame_k_once (default_config [''k''])
     = Inr [(0, 0, 1), (1, 0, 1)]
   \<and> \<not> one_match_per_record (map match_pair [(0, 0, 1), (1, 0, 1)])
   \<and> find_matches frame_a_twice frame_b_idx (exact_config [''id''])
       = Inr (Joined \<lparr>columns = [''id'', ''idx_a'', ''idx_b'', ''_merge''],
                       rows = [[VInt 1, VInt 0, VInt 0, VStr ''both''],
                               [VInt 1, VInt 0, VInt 0, VStr ''both'']]\<rparr>)
   \<and> join_pairs [''id''] frame_a_twice frame_b_idx = [(0, 0), (1, 0)]
   \<and> \<not> one_match_per_record [(0, 0), (1, 0)]"
  by code_simp

text \<open>
  Claim C4 as amended. Each pair (record of A, record of B) is reported at most once:
  the list of fuzzy matches has no pair of positions twice, and the rows of the inner
  join are the joined rows of a list of pairs of positions without repetition. A
  record may take part in several pairs.
\<close>

theorem each_pair_matched_at_most_once:
  assumes "find_similar_matches df_a df_b config = Inr ms"
  shows "distinct (map match_pair ms)
         \<and> distinct (join_pairs (key_fields config) df_a df_b)
         \<and> join_rows (key_fields config) df_a df_b
             = map (joined_row (key_fields config) df_a df_b)
                 (join_pairs (key_fields config) df_a df_b)"
  using scan_a_pairs[of df_a df_b config 0 "rows df_a" ms] assms
  by (simp add: find_similar_matches_def distinct_join_pairs join_rows_by_pairs)

text \<open>
  The hypothesis holds of \<open>{'k': ['a', 'a']}\<close> against \<open>{'k': ['a']}\<close>: two matches, of two
  different pairs.
\<close>

theorem each_pair_matched_at_most_once_witness:
  "find_similar_matches frame_k_twice frame_k_once (default_config [''k''])
     = Inr [(0, 0, 1), (1, 0, 1)]
   \<and> distinct (map match_pair [(0, 0, 1), (1, 0, 1)])"
proof -
  have e: "find_similar_matches frame_k_twice frame_k_once (default_config [''k''])
     = Inr [(0, 0, 1), (1, 0, 1)]"
    by code_simp
  from each_pair_matched_at_most_once[OF e] e show ?thesis by simp
qed

text \<open>
  Claim C5 (a field conflicts iff it is in both records, is no key field, and has two
  unequal non-null values; a field of one record only is always carried into the merged
  record). Key fields are compared like any other field: the records
  \<open>{name: "ab", only_a: 1}\<close> and \<open>{name: "ac", only_b: 2}\<close> with the key \<open>name\<close> conflict on
  \<open>name\<close>. And once a pair has a conflict, the resolved record has the labels of the record
  of A only: under KEEP_SOURCE_B the field \<open>only_b\<close> is not in it, and the merge of
  \<open>{'id': [1], 'idx_a': [0], 'val': ['x']}\<close> with
  \<open>{'id': [1], 'idx_b': [0], 'val': ['y'], 'extra': ['e']}\<close> has lost the value \<open>e\<close> of \<open>extra\<close>.
\<close>

theorem key_conflict_and_dropped_field:
  "''name'' \<in> set (key_fields (default_config [''name'']))
   \<and> find_conflicts record_ab record_ac = [(''name'', VStr ''ab'', VStr ''ac'')]
   \<and> resolve_pair record_ab record_ac
        ((default_config [''name''])\<lparr>conflict_strategy := KEEP_SOURCE_B\<rparr>)
       = Inr ([\<lparr>key_values = [(''name'', VStr ''ab'')],
                 fields_c = [(''name'', VStr ''ab'', VStr ''ac'')],
                 resolution = [(''name'', VStr ''ac''), (''only_a'', VInt 1)]\<rparr>],
              [(''name'', VStr ''ac''), (''only_a'', VInt 1)])
   \<and> merge (SrcFrame frame_a_val) (SrcFrame frame_b_extra) source_b_config
       = \<lparr>success = True,
          merged_data = Some \<lparr>columns = [''id'', ''val'', ''extra''],
                               rows = [[VInt 1, VStr ''y'', VNaN]]\<rparr>,
          conflicts = [\<lparr>key_values = [(''id'', VInt 1)],
                        fields_c = [(''val'', VStr ''x'', VStr ''y'')],
                        resolution = [(''id'', VInt 1), (''idx_a'', VInt 0), (''val'', VStr ''y'')]\<rparr>],
          stats = [(''total_records'', 1), (''matches_found'', 1), (''conflicts_resolved'', 1),
                   (''source_a_only'', 0), (''source_b_only'', 0)],
          errors = [], warnings = []\<rparr>"
  by code_simp

text \<open>
  Claim C5 as amended. A field is reported as conflicting iff both records have it
  and its two values are non-null and unequal, key field or not; a field that only
  one of the two records has is never a conflict; and when the pair has no conflicting
  field, the merged record is \<open>record_a.combine_first(record_b)\<close>: its labels are those
  of both records, a field of one record only has the value of that record, and a field
  of both has the value of A unless that is missing, then the value of B.
\<close>

theorem conflicts_and_left_biased_fill:
  "((field, va, vb) \<in> set (find_conflicts record_a record_b)
      \<longleftrightarrow> (field, va) \<in> set record_a \<and> map_of record_b field = Some vb
          \<and> va \<noteq> VNaN \<and> vb \<noteq> VNaN \<and> va \<noteq> vb)
   \<and> (field \<notin> set (map fst record_a) \<or> field \<notin> set (map fst record_b)
        \<longrightarrow> field \<notin> set (map fst (find_conflicts record_a record_b)))
   \<and> (find_conflicts record_a record_b = [] \<longrightarrow>
        resolve_pair record_a record_b config = Inr ([], combine_first record_a record_b)
        \<and> set (map fst (combine_first record_a record_b))
            = set (map fst record_a) \<union> set (map fst record_b)
        \<and> (field \<in> set (map fst record_a) \<and> field \<notin> set (map fst record_b)
             \<longrightarrow> map_of (combine_first record_a record_b) field = map_of record_a field)
        \<and> (field \<notin> set (map fst record_a) \<and> field \<in> set (map fst record_b)
             \<longrightarrow> map_of (combine_first record_a record_b) field = map_of record_b field)
        \<and> (field \<in> set (map fst record_a) \<and> field \<in> set (map fst record_b)
             \<longrightarrow> map_of (combine_first record_a record_b) field
                  = (if map_of record_a field = Some VNaN then map_of record_b field
                     else map_of record_a field)))"
proof (intro conjI impI)
  show "((field, va, vb) \<in> set (find_conflicts record_a record_b))
        = ((field, va) \<in> set record_a \<and> map_of record_b field = Some vb
            \<and> va \<noteq> VNaN \<and> vb \<noteq> VNaN \<and> va \<noteq> vb)"
    by (rule find_conflicts_iff)
next
  assume "field \<notin> set (map fst record_a) \<or> field \<notin> set (map fst record_b)"
  then show "field \<notin> set (map fst (find_conflicts record_a record_b))"
    using conflict_field_in_both[of field record_a record_b] by blast
next
  assume "find_conflicts record_a record_b = []"
  then show "resolve_pair record_a record_b config = Inr ([], combine_first record_a record_b)"
    by (rule resolve_pair_no_conflict)
next
  show "set (map fst (combine_first record_a record_b))
          = set (map fst record_a) \<union> set (map fst record_b)"
    by (rule combine_first_labels)
next
  assume "field \<in> set (map fst record_a) \<and> field \<notin> set (map fst record_b)"
  then show "map_of (combine_first record_a record_b) field = map_of record_a field"
    by (elim conjE) (rule fill_a_only)
next
  assume "field \<notin> set (map fst record_a) \<and> field \<in> set (map fst record_b)"
  then show "map_of (combine_first record_a record_b) field = map_of record_b field"
    by (elim conjE) (rule fill_b_only)
next
  assume "field \<in> set (map fst record_a) \<and> field \<in> set (map fst record_b)"
  then show "map_of (combine_first record_a record_b) field
                = (if map_of record_a field = Some VNaN then map_of record_b field
                   else map_of record_a field)"
    by (elim conjE) (rule fill_both)
qed

text \<open>
  \<open>{name: "ab", only_a: 1}\<close> and \<open>{name: "ab", only_b: 2}\<close> have no conflict, and the merged
  record is \<open>{name: "ab", only_a: 1, only_b: 2}\<close>.
\<close>

theorem conflicts_and_left_biased_fill_witness:
  "find_conflicts record_ab record_ab_b = []
   \<and> ''only_b'' \<notin> set (map fst record_ab) \<and> ''only_b'' \<in> set (map fst record_ab_b)
   \<and> resolve_pair record_ab record_ab_b (default_config [''name''])
       = Inr ([], combine_first record_ab record_ab_b)
   \<and> map_of (combine_first record_ab record_ab_b) ''only_b'' = Some (VInt 2)
   \<and> combine_first record_ab record_ab_b
       = [(''name'', VStr ''ab''), (''only_a'', VInt 1), (''only_b'', VInt 2)]"
proof -
  have e: "find_conflicts record_ab record_ab_b = []" by code_simp
  have m: "''only_b'' \<notin> set (map fst record_ab) \<and> ''only_b'' \<in> set (map fst record_ab_b)"
    by (simp add: record_ab_def record_ab_b_def)
  have v: "map_of record_ab_b ''only_b'' = Some (VInt 2)" by (simp add: record_ab_b_def)
  have c: "combine_first record_ab record_ab_b
       = [(''name'', VStr ''ab''), (''only_a'', VInt 1), (''only_b'', VInt 2)]" by code_simp
  from conflicts_and_left_biased_fill[of "''only_b''" VNaN VNaN record_ab record_ab_b
      "default_config [''name'']"] e m v c
  show ?thesis by simp
qed



end
